theory Spec2Isabelle
  imports Complex_Main "HOL-Library.Word"
begin

section \<open>The mapcode command-line utility (utility/mapcode.cpp)\<close>

text \<open>
  The utility drives the Mapcode library to encode and decode mapcodes and to
  generate test sets of coordinates. The library itself (mapcoder.c) is not part
  of the embedded code: its entry points are the fields of the record \<open>codec\<close>.

  Values of the C type \<^verbatim>\<open>double\<close> are modelled as reals: no rounding, no
  overflow, no infinities. The one function of the utility that tests a value
  for not-a-number, \<^verbatim>\<open>unitToLatLonDeg\<close>, is modelled over reals extended
  with an explicit NaN. Values of the C type \<^verbatim>\<open>int\<close> are modelled as
  integers; none of the properties below depends on wrap-around.
\<close>

subsection \<open>Constants and macros\<close>

definition NORMAL_ERROR :: int where
  "NORMAL_ERROR = 1"

definition INTERNAL_ERROR :: int where
  "INTERNAL_ERROR = 2"

definition PI :: real where
  "PI = 3.14159265358979323846"

definition SHOW_PROGRESS :: int where
  "SHOW_PROGRESS = 125"

definition DELTA :: real where
  "DELTA = 0.001"

datatype double = NaN | Fin real

text \<open>\<^verbatim>\<open>#define my_isnan(x) (false)\<close>\<close>

definition my_isnan :: "double \<Rightarrow> bool" where
  "my_isnan x = False"

text \<open>\<^verbatim>\<open>#define my_round(x) ((int) (floor((x) + 0.5)))\<close>\<close>

definition my_round :: "real \<Rightarrow> int" where
  "my_round x = \<lfloor>x + 0.5\<rfloor>"

subsection \<open>The C library\<close>

text \<open>
  \<^verbatim>\<open>strstr(haystack, needle)\<close>: the suffix of the haystack that starts at the
  first occurrence of the needle, or the null pointer (\<open>None\<close>).
\<close>

fun strstr :: "string \<Rightarrow> string \<Rightarrow> string option" where
  "strstr [] needle = (if needle = [] then Some [] else None)"
| "strstr (c # cs) needle =
     (if take (length needle) (c # cs) = needle then Some (c # cs) else strstr cs needle)"

text \<open>
  Arithmetic and the functions of \<^verbatim>\<open>math.h\<close> on doubles that may be NaN: an
  operation with a NaN operand is NaN, and \<^verbatim>\<open>acos\<close> and \<^verbatim>\<open>asin\<close> are NaN
  outside the interval from -1 to 1.
\<close>

fun lift1 :: "(real \<Rightarrow> real) \<Rightarrow> double \<Rightarrow> double" where
  "lift1 f NaN = NaN"
| "lift1 f (Fin x) = Fin (f x)"

fun lift2 :: "(real \<Rightarrow> real \<Rightarrow> real) \<Rightarrow> double \<Rightarrow> double \<Rightarrow> double" where
  "lift2 f (Fin x) (Fin y) = Fin (f x y)"
| "lift2 f a b = NaN"

fun c_acos :: "double \<Rightarrow> double" where
  "c_acos NaN = NaN"
| "c_acos (Fin x) = (if -1 \<le> x \<and> x \<le> 1 then Fin (arccos x) else NaN)"

fun c_asin :: "double \<Rightarrow> double" where
  "c_asin NaN = NaN"
| "c_asin (Fin x) = (if -1 \<le> x \<and> x \<le> 1 then Fin (arcsin x) else NaN)"

definition atan2_real :: "real \<Rightarrow> real \<Rightarrow> real" where
  "atan2_real y x =
     (if 0 < x then arctan (y / x)
      else if x < 0 then (if 0 \<le> y then arctan (y / x) + pi else arctan (y / x) - pi)
      else if 0 < y then pi / 2
      else if y < 0 then - (pi / 2)
      else 0)"

definition c_atan2 :: "double \<Rightarrow> double \<Rightarrow> double" where
  "c_atan2 y x = lift2 atan2_real y x"

subsection \<open>The Mapcode library, as far as the utility calls it\<close>

text \<open>
  A boundary record \<^verbatim>\<open>mminforec\<close> holds a rectangle in millionths of a degree.
\<close>

record mminforec =
  minx :: int
  miny :: int
  maxx :: int
  maxy :: int

text \<open>
  The encoder fills the array \<^verbatim>\<open>results\<close> with pairs of pointers, the mapcode at
  index \<open>2 * i\<close> and the territory at index \<open>2 * i + 1\<close>, and returns their
  number. It is modelled as returning the list of these (mapcode, territory)
  pairs; \<^verbatim>\<open>nrResults\<close> is the length of the list. The decoder returns its error
  code together with the latitude and longitude it stores.
\<close>

record codec =
  convertTerritoryIsoNameToCode :: "string \<Rightarrow> int \<Rightarrow> int"
  encodeLatLonToMapcodes_Deprecated :: "real \<Rightarrow> real \<Rightarrow> int \<Rightarrow> int \<Rightarrow> (string \<times> string) list"
  decodeMapcodeToLatLon :: "string \<Rightarrow> int \<Rightarrow> int \<times> real \<times> real"
  boundaries :: "int \<Rightarrow> mminforec"
  NR_BOUNDARY_RECS :: int

subsection \<open>The state of the process\<close>

text \<open>
  A line of standard output and a message on standard error, each with the
  values that the format string prints. The percentage of the progress line and
  the average of the statistics are computed from values that the message
  carries, and are left out.
\<close>

datatype out_line =
    Header int real real "(real \<times> real \<times> real) option"
  | Alias string string
  | LatLon real real
  | Blank
  | Usage

datatype err_line =
    CannotEncodeCheck real real string
  | NotEncodeBack string string real real real real
  | CannotDecodeCheck string string
  | DecodeDelta real real string string real real real real
  | CannotEncode real real
  | CannotDecode string string
  | DebugMode
  | IncorrectArguments
  | Progress int int int
  | Statistics int int int real real

text \<open>
  The global variables of the utility, and the two output streams.
\<close>

record proc =
  selfCheckEnabled :: bool
  totalNrOfPoints :: int
  totalNrOfResults :: int
  largestNrOfResults :: int
  latLargestNrOfResults :: real
  lonLargestNrOfResults :: real
  stdout :: "out_line list"
  stderr :: "err_line list"

text \<open>
  A function of the utility either returns to its caller (\<open>Running\<close>), ends the
  process through \<^verbatim>\<open>exit\<close> with a status, or has undefined behaviour because
  it passes a null pointer to \<^verbatim>\<open>strcmp\<close>.
\<close>

datatype status = Running | Exit int | NullStrcmp

datatype fault = NullPointer

definition andThen :: "status \<times> proc \<Rightarrow> (proc \<Rightarrow> status \<times> proc) \<Rightarrow> status \<times> proc" where
  "andThen r f = (case fst r of Running \<Rightarrow> f (snd r) | Exit n \<Rightarrow> r | NullStrcmp \<Rightarrow> r)"

definition say :: "err_line \<Rightarrow> proc \<Rightarrow> proc" where
  "say m p = p\<lparr>stderr := stderr p @ [m]\<rparr>"

definition print :: "out_line \<Rightarrow> proc \<Rightarrow> proc" where
  "print l p = p\<lparr>stdout := stdout p @ [l]\<rparr>"

subsection \<open>Conversions\<close>

definition radToDeg :: "double \<Rightarrow> double" where
  "radToDeg rad = lift2 (*) (lift2 (/) rad (Fin PI)) (Fin 180)"

definition degToRad :: "real \<Rightarrow> real" where
  "degToRad deg = (deg / 180) * PI"

definition unitToLatLonDeg :: "double \<Rightarrow> double \<Rightarrow> double \<times> double" where
  "unitToLatLonDeg unit1 unit2 =
     (let theta0 = lift2 (*) (lift2 (*) (Fin 2) (Fin PI)) unit1;
          theta1 = c_acos (lift2 (-) (Fin 1) (lift2 (*) (Fin 2) unit2));
          x = lift2 (*) (lift1 sin theta0) (lift1 sin theta1);
          y = lift2 (*) (lift1 cos theta0) (lift1 sin theta1);
          z = lift1 cos theta1;
          latRad = c_asin z;
          lonRad = c_atan2 y x
      in (if my_isnan latRad then Fin 90 else radToDeg latRad,
          if my_isnan lonRad then Fin 180 else radToDeg lonRad))"

definition convertLatLonToXYZ :: "real \<Rightarrow> real \<Rightarrow> real \<times> real \<times> real" where
  "convertLatLonToXYZ latDeg lonDeg =
     (let latRad = degToRad latDeg;
          lonRad = degToRad lonDeg
      in (cos latRad * cos lonRad, cos latRad * sin lonRad, sin latRad))"

subsection \<open>The self check of encoding\<close>

text \<open>
  One round of the loop body in \<^verbatim>\<open>selfCheckLatLonToMapcode\<close>: the new value of
  \<^verbatim>\<open>found\<close>. The pointer \<^verbatim>\<open>foundTerritoryMin\<close> is null when the territory
  holds no dash; \<^verbatim>\<open>strcmp\<close> is called on it when the first comparison of the
  disjunction fails.
\<close>

definition matchResult :: "string \<Rightarrow> string \<Rightarrow> string \<Rightarrow> string \<Rightarrow> fault + bool" where
  "matchResult territory mapcode foundMapcode foundTerritory =
     (let foundTerritoryMin =
            (case strstr foundTerritory ''-'' of
               None \<Rightarrow> None
             | Some s \<Rightarrow> (if length s > 0 then Some (tl s) else Some s))
      in if territory = foundTerritory then Inr (mapcode = foundMapcode)
         else (case foundTerritoryMin of
                 None \<Rightarrow> Inl NullPointer
               | Some m \<Rightarrow> Inr (territory = m \<and> mapcode = foundMapcode)))"

text \<open>
  The loop \<^verbatim>\<open>for (int i = 0; !found && (i < nrResults); ++i)\<close> over the
  results that are left.
\<close>

fun findResult :: "string \<Rightarrow> string \<Rightarrow> (string \<times> string) list \<Rightarrow> bool \<Rightarrow> fault + bool" where
  "findResult territory mapcode [] found = Inr found"
| "findResult territory mapcode ((foundMapcode, foundTerritory) # rest) found =
     (if found then Inr found
      else (case matchResult territory mapcode foundMapcode foundTerritory of
              Inl u \<Rightarrow> Inl u
            | Inr f \<Rightarrow> findResult territory mapcode rest f))"

definition selfCheckLatLonToMapcode ::
  "codec \<Rightarrow> real \<Rightarrow> real \<Rightarrow> string \<Rightarrow> string \<Rightarrow> int \<Rightarrow> proc \<Rightarrow> status \<times> proc" where
  "selfCheckLatLonToMapcode cd lat lon territory mapcode extraDigits p =
     (let context = convertTerritoryIsoNameToCode cd territory 0;
          limitLat = (if lat < -90 then -90 else (if lat > 90 then 90 else lat));
          limitLon = (if lon < -180 then -180 else (if lon > 180 then 180 else lon));
          results = encodeLatLonToMapcodes_Deprecated cd limitLat limitLon context extraDigits;
          nrResults = int (length results)
      in if nrResults \<le> 0 then
           (if selfCheckEnabled p
            then (Exit INTERNAL_ERROR, say (CannotEncodeCheck lat lon territory) p)
            else (Running, say (CannotEncodeCheck lat lon territory) p))
         else (case findResult territory mapcode results False of
                 Inl u \<Rightarrow> (NullStrcmp, p)
               | Inr found \<Rightarrow>
                   (if found then (Running, p)
                    else if selfCheckEnabled p
                    then (Exit INTERNAL_ERROR,
                          say (NotEncodeBack territory mapcode lat limitLat lon limitLon) p)
                    else (Running,
                          say (NotEncodeBack territory mapcode lat limitLat lon limitLon) p))))"

subsection \<open>The self check of decoding\<close>

definition selfCheckMapcodeToLatLon ::
  "codec \<Rightarrow> string \<Rightarrow> string \<Rightarrow> real \<Rightarrow> real \<Rightarrow> proc \<Rightarrow> status \<times> proc" where
  "selfCheckMapcodeToLatLon cd territory mapcode lat lon p =
     (let foundContext = convertTerritoryIsoNameToCode cd territory 0
      in (case decodeMapcodeToLatLon cd mapcode foundContext of
            (err, foundLat, foundLon) \<Rightarrow>
              if err \<noteq> 0 then
                (if selfCheckEnabled p
                 then (Exit INTERNAL_ERROR, say (CannotDecodeCheck territory mapcode) p)
                 else (Running, say (CannotDecodeCheck territory mapcode) p))
              else
                (let deltaLat = (if (foundLat - lat) \<ge> 0 then (foundLat - lat) else - (foundLat - lat));
                     deltaLon0 = (if (foundLon - lon) > - 0 then (foundLon - lon) else - (foundLon - lon));
                     deltaLon = (if deltaLon0 > 180 then 360 - deltaLon0 else deltaLon0)
                 in if (deltaLat > DELTA) \<or> (deltaLon > DELTA) then
                      (if selfCheckEnabled p
                       then (Exit INTERNAL_ERROR,
                             say (DecodeDelta lat lon territory mapcode foundLat deltaLat foundLon deltaLon) p)
                       else (Running,
                             say (DecodeDelta lat lon territory mapcode foundLat deltaLat foundLon deltaLon) p))
                    else (Running, p))))"

subsection \<open>Encoding one point of a test set\<close>

text \<open>
  The four loops that bring the longitude and the latitude back into range.
\<close>

function lonWhileAbove :: "real \<Rightarrow> real" where
  "lonWhileAbove lon = (if lon > 180 then lonWhileAbove (lon - 360) else lon)"
  by pat_completeness auto
termination
proof (relation "measure (\<lambda>lon. nat \<lceil>lon\<rceil>)")
  fix lon :: real
  assume h: "180 < lon"
  have "\<lceil>lon - 360\<rceil> = \<lceil>lon\<rceil> - 360" by linarith
  moreover have "0 < \<lceil>lon\<rceil>" using h by linarith
  ultimately show "(lon - 360, lon) \<in> measure (\<lambda>lon. nat \<lceil>lon\<rceil>)" by simp
qed simp

function lonWhileBelow :: "real \<Rightarrow> real" where
  "lonWhileBelow lon = (if lon < -180 then lonWhileBelow (lon + 360) else lon)"
  by pat_completeness auto
termination
proof (relation "measure (\<lambda>lon. nat \<lceil>- lon\<rceil>)")
  fix lon :: real
  assume h: "lon < -180"
  have "\<lceil>- (lon + 360)\<rceil> = \<lceil>- lon\<rceil> - 360" by linarith
  moreover have "0 < \<lceil>- lon\<rceil>" using h by linarith
  ultimately show "(lon + 360, lon) \<in> measure (\<lambda>lon. nat \<lceil>- lon\<rceil>)" by simp
qed simp

function latWhileAbove :: "real \<Rightarrow> real" where
  "latWhileAbove lat = (if lat > 90 then latWhileAbove (lat - 180) else lat)"
  by pat_completeness auto
termination
proof (relation "measure (\<lambda>lat. nat \<lceil>lat\<rceil>)")
  fix lat :: real
  assume h: "90 < lat"
  have "\<lceil>lat - 180\<rceil> = \<lceil>lat\<rceil> - 180" by linarith
  moreover have "0 < \<lceil>lat\<rceil>" using h by linarith
  ultimately show "(lat - 180, lat) \<in> measure (\<lambda>lat. nat \<lceil>lat\<rceil>)" by simp
qed simp

function latWhileBelow :: "real \<Rightarrow> real" where
  "latWhileBelow lat = (if lat < -90 then latWhileBelow (lat + 180) else lat)"
  by pat_completeness auto
termination
proof (relation "measure (\<lambda>lat. nat \<lceil>- lat\<rceil>)")
  fix lat :: real
  assume h: "lat < -90"
  have "\<lceil>- (lat + 180)\<rceil> = \<lceil>- lat\<rceil> - 180" by linarith
  moreover have "0 < \<lceil>- lat\<rceil>" using h by linarith
  ultimately show "(lat + 180, lat) \<in> measure (\<lambda>lat. nat \<lceil>- lat\<rceil>)" by simp
qed simp

definition wrapLon :: "real \<Rightarrow> real" where
  "wrapLon lon = lonWhileBelow (lonWhileAbove lon)"

definition wrapLat :: "real \<Rightarrow> real" where
  "wrapLat lat = latWhileBelow (latWhileAbove lat)"

text \<open>
  The loop over the results in \<^verbatim>\<open>generateAndOutputMapcodes\<close>: one line per
  alias and, when self checking is enabled, the two self checks.
\<close>

fun outputResults ::
  "codec \<Rightarrow> real \<Rightarrow> real \<Rightarrow> int \<Rightarrow> (string \<times> string) list \<Rightarrow> proc \<Rightarrow> status \<times> proc" where
  "outputResults cd lat lon extraDigits [] p = (Running, p)"
| "outputResults cd lat lon extraDigits ((foundMapcode, foundTerritory) # rest) p =
     (let p1 = print (Alias foundTerritory foundMapcode) p
      in if selfCheckEnabled p1 then
           andThen
             (andThen (selfCheckLatLonToMapcode cd lat lon foundTerritory foundMapcode extraDigits p1)
                (selfCheckMapcodeToLatLon cd foundTerritory foundMapcode lat lon))
             (outputResults cd lat lon extraDigits rest)
         else outputResults cd lat lon extraDigits rest p1)"

definition updateStatistics :: "int \<Rightarrow> real \<Rightarrow> real \<Rightarrow> proc \<Rightarrow> proc" where
  "updateStatistics nrResults lat lon p =
     (let p1 = (if nrResults > largestNrOfResults p
                then p\<lparr>largestNrOfResults := nrResults,
                       latLargestNrOfResults := lat,
                       lonLargestNrOfResults := lon\<rparr>
                else p)
      in p1\<lparr>totalNrOfResults := totalNrOfResults p1 + nrResults\<rparr>)"

definition generateAndOutputMapcodes ::
  "codec \<Rightarrow> real \<Rightarrow> real \<Rightarrow> int \<Rightarrow> int \<Rightarrow> int \<Rightarrow> proc \<Rightarrow> status \<times> proc" where
  "generateAndOutputMapcodes cd lat0 lon0 iShowError extraDigits useXYZ p =
     (let context = 0;
          lon = wrapLon lon0;
          lat = wrapLat lat0;
          results = encodeLatLonToMapcodes_Deprecated cd lat lon context extraDigits;
          nrResults = int (length results)
      in if nrResults \<le> 0 \<and> iShowError \<noteq> 0 then (Exit NORMAL_ERROR, say (CannotEncode lat lon) p)
         else
           (let p1 = (if useXYZ \<noteq> 0
                      then print (Header nrResults lat lon (Some (convertLatLonToXYZ lat lon))) p
                      else print (Header nrResults lat lon None) p)
            in andThen (outputResults cd lat lon extraDigits results p1)
                 (\<lambda>p2. (Running, updateStatistics nrResults lat lon (print Blank p2)))))"

subsection \<open>Statistics\<close>

definition resetStatistics :: "int \<Rightarrow> proc \<Rightarrow> proc" where
  "resetStatistics nrOfPoints p =
     p\<lparr>totalNrOfPoints := nrOfPoints,
       largestNrOfResults := 0,
       latLargestNrOfResults := 0,
       lonLargestNrOfResults := 0\<rparr>"

definition outputStatistics :: "proc \<Rightarrow> proc" where
  "outputStatistics p =
     say (Statistics (totalNrOfPoints p) (totalNrOfResults p) (largestNrOfResults p)
            (latLargestNrOfResults p) (lonLargestNrOfResults p)) p"

definition showProgress :: "int \<Rightarrow> proc \<Rightarrow> proc" where
  "showProgress i p = say (Progress i (totalNrOfPoints p) (totalNrOfResults p)) p"

subsection \<open>The test set of the boundaries\<close>

text \<open>
  The thirteen points that the loop body in \<^verbatim>\<open>main\<close> passes to
  \<^verbatim>\<open>generateAndOutputMapcodes\<close> for one boundary record, in the order of
  the calls.
\<close>

definition boundaryProbes :: "mminforec \<Rightarrow> (real \<times> real) list" where
  "boundaryProbes mm =
     (let minLon = real_of_int (minx mm) / 1000000;
          maxLon = real_of_int (maxx mm) / 1000000;
          minLat = real_of_int (miny mm) / 1000000;
          maxLat = real_of_int (maxy mm) / 1000000;
          lat = (maxLat - minLat) / 2;
          lon = (maxLon - minLon) / 2;
          d = 0.000001
      in [(lat, lon),
          (minLat, minLon), (minLat, maxLon), (maxLat, minLon), (maxLat, maxLon),
          (minLat + d, minLon + d), (minLat + d, maxLon - d),
          (maxLat - d, minLon + d), (maxLat - d, maxLon - d),
          (minLat - d, minLon - d), (minLat - d, maxLon + d),
          (maxLat + d, minLon - d), (maxLat + d, maxLon + d)])"

fun generateAll ::
  "codec \<Rightarrow> int \<Rightarrow> int \<Rightarrow> int \<Rightarrow> (real \<times> real) list \<Rightarrow> proc \<Rightarrow> status \<times> proc" where
  "generateAll cd iShowError extraDigits useXYZ [] p = (Running, p)"
| "generateAll cd iShowError extraDigits useXYZ ((lat, lon) # rest) p =
     andThen (generateAndOutputMapcodes cd lat lon iShowError extraDigits useXYZ p)
       (generateAll cd iShowError extraDigits useXYZ rest)"

fun boundariesLoop :: "codec \<Rightarrow> int \<Rightarrow> int \<Rightarrow> int list \<Rightarrow> proc \<Rightarrow> status \<times> proc" where
  "boundariesLoop cd extraDigits useXYZ [] p = (Running, p)"
| "boundariesLoop cd extraDigits useXYZ (i # rest) p =
     andThen (generateAll cd 0 extraDigits useXYZ (boundaryProbes (boundaries cd i)) p)
       (\<lambda>p1. boundariesLoop cd extraDigits useXYZ rest
                (if i mod SHOW_PROGRESS = 0 then showProgress i p1 else p1))"

text \<open>
  The branch of \<^verbatim>\<open>main\<close> for the commands \<^verbatim>\<open>-b\<close> and \<^verbatim>\<open>--boundaries\<close>,
  after the arguments are read. The loop runs over the indices below
  \<^verbatim>\<open>totalNrOfPoints\<close>, which the body does not change.
\<close>

definition mainBoundaries :: "codec \<Rightarrow> int \<Rightarrow> int \<Rightarrow> proc \<Rightarrow> status \<times> proc" where
  "mainBoundaries cd extraDigits useXYZ p =
     (let p0 = resetStatistics (NR_BOUNDARY_RECS cd) p
      in andThen (boundariesLoop cd extraDigits useXYZ [0 .. totalNrOfPoints p0 - 1] p0)
           (\<lambda>p1. (Exit 0, outputStatistics p1)))"

subsection \<open>The points of the grid and of the random test set\<close>

text \<open>
  The generator of the C library: the state that \<^verbatim>\<open>srand\<close> sets up from a
  seed, the step \<^verbatim>\<open>rand\<close>, and the constant \<^verbatim>\<open>RAND_MAX\<close>.
\<close>

record 'g libc_random =
  srand :: "32 word \<Rightarrow> 'g"
  rand :: "'g \<Rightarrow> int \<times> 'g"
  RAND_MAX :: int

text \<open>
  The seeding in \<^verbatim>\<open>main\<close>: \<open>seed\<close> is \<^verbatim>\<open>atoi(argv[4])\<close> and \<open>now\<close> is the
  value of \<^verbatim>\<open>time(0)\<close>.
\<close>

definition seedGenerator :: "'g libc_random \<Rightarrow> nat \<Rightarrow> int \<Rightarrow> int \<Rightarrow> 'g" where
  "seedGenerator rng argc seed now =
     (if argc = 5 then srand rng (word_of_int seed) else srand rng (word_of_int now))"

text \<open>
  The pairs \<^verbatim>\<open>(unit1, unit2)\<close> of the loop in \<^verbatim>\<open>main\<close>, for the number of
  rounds that are left.
\<close>

fun sampleUnits ::
  "'g libc_random \<Rightarrow> bool \<Rightarrow> int \<Rightarrow> nat \<Rightarrow> int \<Rightarrow> int \<Rightarrow> 'g \<Rightarrow> (real \<times> real) list" where
  "sampleUnits rng random line 0 gridX gridY g = []"
| "sampleUnits rng random line (Suc n) gridX gridY g =
     (if random then
        (case rand rng g of
           (r1, g1) \<Rightarrow>
             (case rand rng g1 of
                (r2, g2) \<Rightarrow>
                  (real_of_int r1 / real_of_int (RAND_MAX rng),
                   real_of_int r2 / real_of_int (RAND_MAX rng))
                  # sampleUnits rng random line n gridX gridY g2))
      else
        (real_of_int gridX / real_of_int line, real_of_int gridY / real_of_int line)
        # (if gridX < line
           then sampleUnits rng random line n (gridX + 1) gridY g
           else sampleUnits rng random line n 0 (gridY + 1) g))"

text \<open>
  The points that the branch of \<^verbatim>\<open>main\<close> for the grid and the random test
  set passes to \<^verbatim>\<open>generateAndOutputMapcodes\<close>, each with \<^verbatim>\<open>iShowError\<close>
  set to 1. Without a call of \<^verbatim>\<open>srand\<close> the generator is in the state of
  seed 1.
\<close>

definition samplePoints ::
  "'g libc_random \<Rightarrow> string \<Rightarrow> nat \<Rightarrow> int \<Rightarrow> int \<Rightarrow> int \<Rightarrow> (double \<times> double) list" where
  "samplePoints rng cmd argc seed now nrOfPoints =
     (let random = (cmd = ''-r'' \<or> cmd = ''--random'');
          g = (if random then seedGenerator rng argc seed now else srand rng 1);
          line = my_round (sqrt (real_of_int nrOfPoints))
      in map (\<lambda>(unit1, unit2). unitToLatLonDeg (Fin unit1) (Fin unit2))
           (sampleUnits rng random line (nat nrOfPoints) 0 0 g))"

subsection \<open>Decoding from the command line\<close>

fun decodeLoop :: "codec \<Rightarrow> string \<Rightarrow> int \<Rightarrow> string list \<Rightarrow> proc \<Rightarrow> status \<times> proc" where
  "decodeLoop cd defaultTerritory context [] p = (Running, p)"
| "decodeLoop cd defaultTerritory context (mapcode # rest) p =
     (case decodeMapcodeToLatLon cd mapcode context of
        (err, lat, lon) \<Rightarrow>
          if err \<noteq> 0 then (Exit NORMAL_ERROR, say (CannotDecode defaultTerritory mapcode) p)
          else
            (let p1 = print (LatLon lat lon) p
             in if selfCheckEnabled p1 then
                  (let extraDigits =
                         (case strstr mapcode ''-'' of
                            None \<Rightarrow> 0
                          | Some suffix \<Rightarrow> int (length suffix) - 1)
                   in andThen
                        (selfCheckLatLonToMapcode cd lat lon defaultTerritory mapcode extraDigits p1)
                        (decodeLoop cd defaultTerritory context rest))
                else decodeLoop cd defaultTerritory context rest p1))"

text \<open>
  The branch of \<^verbatim>\<open>main\<close> for the commands \<^verbatim>\<open>-d\<close> and \<^verbatim>\<open>--decode\<close>:
  \<open>args\<close> are the arguments after the command.
\<close>

definition mainDecode :: "codec \<Rightarrow> string \<Rightarrow> string list \<Rightarrow> proc \<Rightarrow> status \<times> proc" where
  "mainDecode cd appName args p =
     (let p0 = p\<lparr>selfCheckEnabled := (strstr appName ''debug'' \<noteq> None)\<rparr>;
          p1 = (if selfCheckEnabled p0 then say DebugMode p0 else p0)
      in if length args < 2 then (Exit NORMAL_ERROR, print Usage (say IncorrectArguments p1))
         else
           (let defaultTerritory = args ! 0;
                context = convertTerritoryIsoNameToCode cd defaultTerritory 0
            in andThen (decodeLoop cd defaultTerritory context (drop 1 args) p1)
                 (\<lambda>p2. (Exit 0, p2))))"

subsection \<open>The reading of the specification, and values for the examples\<close>

text \<open>
  The decode check as the specification words it: it fails when the decoder
  reports an error, or the latitudes differ by more than 0.001 degrees, or the
  longitudes do, their difference being taken around the circle.
\<close>

definition decodeCheckFails_spec :: "int \<Rightarrow> real \<Rightarrow> real \<Rightarrow> real \<Rightarrow> real \<Rightarrow> bool" where
  "decodeCheckFails_spec err foundLat foundLon lat lon =
     (err \<noteq> 0 \<or> \<bar>foundLat - lat\<bar> > 0.001 \<or>
      (if \<bar>foundLon - lon\<bar> > 180 then 360 - \<bar>foundLon - lon\<bar> else \<bar>foundLon - lon\<bar>) > 0.001)"

text \<open>
  The globals as they are initialised, with nothing written yet.
\<close>

definition initialProc :: proc where
  "initialProc =
     \<lparr>selfCheckEnabled = False, totalNrOfPoints = 0, totalNrOfResults = 0,
      largestNrOfResults = 0, latLargestNrOfResults = 0, lonLargestNrOfResults = 0,
      stdout = [], stderr = []\<rparr>"

text \<open>
  A library for the examples: every point has a local and an international
  mapcode, every mapcode decodes to the same point, and there is one boundary
  record, from 40 to 50 degrees of latitude and from 10 to 30 degrees of
  longitude.
\<close>

definition exampleCodec :: codec where
  "exampleCodec =
     \<lparr>convertTerritoryIsoNameToCode = (\<lambda>name parent. 0),
      encodeLatLonToMapcodes_Deprecated =
        (\<lambda>lat lon context extraDigits. [(''49.4V'', ''NLD''), (''VHXGB.1J9J'', ''AAA'')]),
      decodeMapcodeToLatLon = (\<lambda>mapcode context. (0, 52.376514, 4.908542)),
      boundaries =
        (\<lambda>i. \<lparr>minx = 10000000, miny = 40000000, maxx = 30000000, maxy = 50000000\<rparr>),
      NR_BOUNDARY_RECS = 1\<rparr>"

section \<open>Properties\<close>

subsection \<open>What the output functions change\<close>

lemma say_fields:
  "stdout (say m p) = stdout p"
  "selfCheckEnabled (say m p) = selfCheckEnabled p"
  "stderr (say m p) = stderr p @ [m]"
  by (simp_all add: say_def)

lemma print_fields:
  "stdout (print l p) = stdout p @ [l]"
  "selfCheckEnabled (print l p) = selfCheckEnabled p"
  "stderr (print l p) = stderr p"
  by (simp_all add: print_def)

lemma updateStatistics_fields:
  "stdout (updateStatistics n lat lon p) = stdout p"
  "selfCheckEnabled (updateStatistics n lat lon p) = selfCheckEnabled p"
  "stderr (updateStatistics n lat lon p) = stderr p"
  by (simp_all add: updateStatistics_def Let_def)

lemma showProgress_fields:
  "stdout (showProgress i p) = stdout p"
  "selfCheckEnabled (showProgress i p) = selfCheckEnabled p"
  by (simp_all add: showProgress_def say_fields)

text \<open>
  One call of \<^verbatim>\<open>generateAndOutputMapcodes\<close> with the library of the examples,
  without self checking.
\<close>

lemma generate_example:
  "\<not> selfCheckEnabled p \<Longrightarrow>
   generateAndOutputMapcodes exampleCodec lat lon 0 0 0 p =
     (Running, updateStatistics 2 (wrapLat lat) (wrapLon lon)
        (print Blank (print (Alias ''AAA'' ''VHXGB.1J9J'') (print (Alias ''NLD'' ''49.4V'')
           (print (Header 2 (wrapLat lat) (wrapLon lon) None) p)))))"
  by (simp add: generateAndOutputMapcodes_def exampleCodec_def Let_def andThen_def print_fields)

subsection \<open>Boundary mode\<close>

lemma boundaryProbes_first:
  "boundaryProbes mm ! 0 =
     ((real_of_int (maxy mm) / 1000000 - real_of_int (miny mm) / 1000000) / 2,
      (real_of_int (maxx mm) / 1000000 - real_of_int (minx mm) / 1000000) / 2)"
  by (simp add: boundaryProbes_def Let_def)

lemma boundaryProbes_length: "length (boundaryProbes mm) = 13"
  by (simp add: boundaryProbes_def Let_def)

text \<open>
  C1. The first point of a boundary record is computed as half the extent of
  the rectangle, not as its center. For the record from 40 to 50 degrees of
  latitude and from 10 to 30 degrees of longitude the first point is latitude 5,
  longitude 10, and this is the point in the first header line that boundary
  mode writes; the center is latitude 45, longitude 20.
\<close>

theorem boundary_first_probe_half_extent:
  "boundaryProbes \<lparr>minx = 10000000, miny = 40000000, maxx = 30000000, maxy = 50000000\<rparr> ! 0
     = (5, 10)
   \<and> hd (stdout (snd (mainBoundaries exampleCodec 0 0 initialProc))) = Header 2 5 10 None"
proof -
  have b: "boundaries exampleCodec 0
             = \<lparr>minx = 10000000, miny = 40000000, maxx = 30000000, maxy = 50000000\<rparr>"
    and n: "NR_BOUNDARY_RECS exampleCodec = 1"
    by (simp_all add: exampleCodec_def)
  have i: "\<not> selfCheckEnabled (resetStatistics 1 initialProc)"
    "stdout (resetStatistics 1 initialProc) = []"
    "totalNrOfPoints (resetStatistics 1 initialProc) = 1"
    by (simp_all add: resetStatistics_def initialProc_def)
  have w: "wrapLat 5 = 5" "wrapLon 10 = 10"
    by (simp_all add: wrapLat_def wrapLon_def)
  have "hd (stdout (snd (mainBoundaries exampleCodec 0 0 initialProc))) = Header 2 5 10 None"
    by (simp add: mainBoundaries_def n i b upto.simps boundaryProbes_def Let_def andThen_def
        generate_example print_fields updateStatistics_fields showProgress_fields w
        outputStatistics_def say_fields SHOW_PROGRESS_def)
  then show ?thesis
    by (simp add: boundaryProbes_first)
qed

subsection \<open>Points without a mapcode\<close>

text \<open>
  C2. When the encoder returns no result and \<^verbatim>\<open>iShowError\<close> is 0, as in
  boundary mode, \<^verbatim>\<open>generateAndOutputMapcodes\<close> returns normally and has
  written a header line whose number of aliases is 0, followed by the empty
  line.
\<close>

theorem generate_writes_record_of_zero_aliases:
  "fst (generateAndOutputMapcodes
          (cd\<lparr>encodeLatLonToMapcodes_Deprecated := (\<lambda>lat lon context extraDigits. [])\<rparr>)
          lat lon 0 extraDigits 0 p) = Running
   \<and> stdout (snd (generateAndOutputMapcodes
          (cd\<lparr>encodeLatLonToMapcodes_Deprecated := (\<lambda>lat lon context extraDigits. [])\<rparr>)
          lat lon 0 extraDigits 0 p))
       = stdout p @ [Header 0 (wrapLat lat) (wrapLon lon) None, Blank]"
  by (simp add: generateAndOutputMapcodes_def Let_def andThen_def print_def updateStatistics_def)

text \<open>
  With \<^verbatim>\<open>iShowError\<close> set to 1, as in grid and random mode, the same point ends
  the process with status 1 and nothing is written to standard output.
\<close>

lemma generate_exits_on_zero_results:
  "generateAndOutputMapcodes
     (cd\<lparr>encodeLatLonToMapcodes_Deprecated := (\<lambda>lat lon context extraDigits. [])\<rparr>)
     lat lon 1 extraDigits useXYZ p
   = (Exit 1, say (CannotEncode (wrapLat lat) (wrapLon lon)) p)"
  by (simp add: generateAndOutputMapcodes_def Let_def NORMAL_ERROR_def)

subsection \<open>Statistics\<close>

lemma resetStatistics_fields:
  "totalNrOfPoints (resetStatistics n p) = n
   \<and> largestNrOfResults (resetStatistics n p) = 0
   \<and> latLargestNrOfResults (resetStatistics n p) = 0
   \<and> lonLargestNrOfResults (resetStatistics n p) = 0
   \<and> totalNrOfResults (resetStatistics n p) = totalNrOfResults p"
  by (simp add: resetStatistics_def)


subsection \<open>The projection of the unit square\<close>

lemma unitToLatLonDeg_never_clamps:
  "unitToLatLonDeg unit1 unit2 =
     (let theta0 = lift2 (*) (lift2 (*) (Fin 2) (Fin PI)) unit1;
          theta1 = c_acos (lift2 (-) (Fin 1) (lift2 (*) (Fin 2) unit2))
      in (radToDeg (c_asin (lift1 cos theta1)),
          radToDeg (c_atan2 (lift2 (*) (lift1 cos theta0) (lift1 sin theta1))
                            (lift2 (*) (lift1 sin theta0) (lift1 sin theta1)))))"
  by (simp add: unitToLatLonDeg_def my_isnan_def Let_def)


subsection \<open>The seed of random mode\<close>

lemma seedGenerator_supplied:
  "seedGenerator rng 5 seed now = srand rng (word_of_int seed)"
  by (simp add: seedGenerator_def)

lemma samplePoints_same_seed:
  "samplePoints rng cmd 5 seed now n = samplePoints rng cmd 5 seed now' n"
  by (simp add: samplePoints_def seedGenerator_def Let_def)

text \<open>
  C5. A seed that is given on the command line is passed to \<^verbatim>\<open>srand\<close> as it
  is, also when it is 0: the clock is read only when no seed is given. Two
  runs of random mode with seed 0 at different times produce the same points.
\<close>

theorem seed_zero_is_not_taken_from_clock:
  "seedGenerator rng 5 0 now = srand rng 0
   \<and> samplePoints rng ''-r'' 5 0 now n = samplePoints rng ''-r'' 5 0 now' n"
  by (simp add: seedGenerator_def samplePoints_def)

subsection \<open>Bringing a point into range\<close>

lemma lonWhileAbove_range:
  "lonWhileAbove x \<le> 180 \<and> (-180 \<le> x \<longrightarrow> -180 \<le> lonWhileAbove x)"
  by (induction x rule: lonWhileAbove.induct) simp

lemma lonWhileBelow_range:
  "-180 \<le> lonWhileBelow x \<and> (x \<le> 180 \<longrightarrow> lonWhileBelow x \<le> 180)"
  by (induction x rule: lonWhileBelow.induct) simp

lemma latWhileAbove_range: "latWhileAbove x \<le> 90"
  by (induction x rule: latWhileAbove.induct) simp

lemma latWhileBelow_range:
  "-90 \<le> latWhileBelow x \<and> (x \<le> 90 \<longrightarrow> latWhileBelow x \<le> 90)"
  by (induction x rule: latWhileBelow.induct) simp

text \<open>
  C6, as stated, fails: a longitude of -180 is not below -180, so neither loop
  changes it, and it is not inside the interval that is open at -180.
\<close>

theorem wrap_keeps_minus_180:
  "\<not> (-90 \<le> wrapLat 0 \<and> wrapLat 0 \<le> 90 \<and> -180 < wrapLon (-180) \<and> wrapLon (-180) \<le> 180)"
  by (simp add: wrapLat_def wrapLon_def)

text \<open>
  C6, amended. For every latitude and longitude, taken as reals, the four loops
  end, and they leave the latitude between -90 and 90 and the longitude between
  -180 and 180, both bounds included.
\<close>

theorem wrap_within_closed_range:
  "-90 \<le> wrapLat lat \<and> wrapLat lat \<le> 90 \<and> -180 \<le> wrapLon lon \<and> wrapLon lon \<le> 180"
  using lonWhileAbove_range[of lon] lonWhileBelow_range[of "lonWhileAbove lon"]
    latWhileAbove_range[of lat] latWhileBelow_range[of "latWhileAbove lat"]
  by (simp add: wrapLat_def wrapLon_def)

subsection \<open>The self check of decoding\<close>

text \<open>
  C7. The decode check writes an error exactly when the decoder reports an
  error, or the latitudes differ by more than 0.001, or the longitudes do, where
  a difference above 180 counts as 360 minus that difference.
\<close>

theorem decode_check_fails_iff:
  "stderr (snd (selfCheckMapcodeToLatLon cd territory mapcode lat lon p)) \<noteq> stderr p \<longleftrightarrow>
   (case decodeMapcodeToLatLon cd mapcode (convertTerritoryIsoNameToCode cd territory 0) of
      (err, foundLat, foundLon) \<Rightarrow> decodeCheckFails_spec err foundLat foundLon lat lon)"
proof (cases "decodeMapcodeToLatLon cd mapcode (convertTerritoryIsoNameToCode cd territory 0)")
  case (fields err foundLat foundLon)
  have a1: "(if 0 \<le> foundLat - lat then foundLat - lat else - (foundLat - lat))
              = \<bar>foundLat - lat\<bar>"
    by simp
  have a2: "(if foundLon - lon > - 0 then foundLon - lon else - (foundLon - lon))
              = \<bar>foundLon - lon\<bar>"
    by simp
  show ?thesis
    unfolding selfCheckMapcodeToLatLon_def decodeCheckFails_spec_def Let_def fields prod.case
      a1 a2 DELTA_def
    by (simp add: say_fields)
qed

text \<open>
  The library of the examples decodes to latitude 52.376514: the check fails
  against the latitude 52.378 and passes against 52.3765.
\<close>

theorem decode_check_fails_iff_witness:
  "stderr (snd (selfCheckMapcodeToLatLon exampleCodec ''NLD'' ''49.4V'' 52.378 4.908542 initialProc))
     \<noteq> stderr initialProc
   \<and> stderr (snd (selfCheckMapcodeToLatLon exampleCodec ''NLD'' ''49.4V'' 52.3765 4.9085 initialProc))
     = stderr initialProc"
  using decode_check_fails_iff [of exampleCodec "''NLD''" "''49.4V''" "52.378" "4.908542" initialProc]
    decode_check_fails_iff [of exampleCodec "''NLD''" "''49.4V''" "52.3765" "4.9085" initialProc]
  by (simp add: exampleCodec_def decodeCheckFails_spec_def)

text \<open>
  What the decode check does with a failure: the message, and the end of the
  process with status 2 when self checking is enabled.
\<close>

lemma decode_check_policy:
  "selfCheckMapcodeToLatLon cd territory mapcode lat lon p = r \<Longrightarrow>
   r = (Running, p) \<or>
   (\<exists>m. snd r = say m p \<and> fst r = (if selfCheckEnabled p then Exit 2 else Running))"
  by (auto simp: selfCheckMapcodeToLatLon_def Let_def INTERNAL_ERROR_def
      split: prod.splits if_splits)

subsection \<open>The self check of encoding\<close>



lemma matchResult_suffix: "matchResult ''IN'' mapcode mapcode ''US-IN'' = Inr True"
  by (simp add: matchResult_def)

lemma findResult_found: "findResult territory mapcode results True = Inr True"
  by (cases results) auto


text \<open>
  When the loop runs to its end without the null pointer, it has found the pair
  exactly when some result matches.
\<close>

lemma findResult_Inr:
  "findResult territory mapcode results False = Inr found \<Longrightarrow>
   found = (\<exists>e \<in> set results. matchResult territory mapcode (fst e) (snd e) = Inr True)"
proof (induction results)
  case Nil
  then show ?case by simp
next
  case (Cons e results)
  obtain fm ft where e: "e = (fm, ft)" by (cases e)
  show ?case
  proof (cases "matchResult territory mapcode fm ft")
    case (Inl u)
    with Cons.prems e show ?thesis by simp
  next
    case (Inr f)
    show ?thesis
    proof (cases f)
      case True
      with Inr Cons.prems e show ?thesis by (simp add: findResult_found)
    next
      case False
      with Inr Cons e show ?thesis by simp
    qed
  qed
qed

text \<open>
  What the encode check does: it passes, or it reaches the null pointer, or it
  writes a message and, when self checking is enabled, ends the process with
  status 2.
\<close>

lemma encode_check_policy:
  "selfCheckLatLonToMapcode cd lat lon territory mapcode extraDigits p = r \<Longrightarrow>
   r = (Running, p) \<or> r = (NullStrcmp, p) \<or>
   (\<exists>m. snd r = say m p \<and> fst r = (if selfCheckEnabled p then Exit 2 else Running))"
  by (auto simp: selfCheckLatLonToMapcode_def Let_def INTERNAL_ERROR_def
      split: sum.splits if_splits)

text \<open>
  C8. A result that matches does not make the check succeed when a result
  before it has a territory without a dash that differs from the expected one:
  the encoder returns the pairs (VHXGB.1J9J, AAA) and (49.4V, US-IN), the pair
  (49.4V, IN) is expected, and the check reaches \<^verbatim>\<open>strcmp\<close> with the null
  pointer at the first result.
\<close>

theorem encode_check_null_before_match:
  "selfCheckLatLonToMapcode
     (cd\<lparr>encodeLatLonToMapcodes_Deprecated :=
           (\<lambda>lat lon context extraDigits. [(''VHXGB.1J9J'', ''AAA''), (''49.4V'', ''US-IN'')])\<rparr>)
     lat lon ''IN'' ''49.4V'' extraDigits p
   = (NullStrcmp, p)"
  by (simp add: selfCheckLatLonToMapcode_def Let_def matchResult_def)

text \<open>
  With the matching result alone, the check succeeds.
\<close>

lemma encode_check_suffix_match:
  "selfCheckLatLonToMapcode
     (cd\<lparr>encodeLatLonToMapcodes_Deprecated :=
           (\<lambda>lat lon context extraDigits. [(''49.4V'', ''US-IN'')])\<rparr>)
     lat lon ''IN'' ''49.4V'' extraDigits p
   = (Running, p)"
  by (simp add: selfCheckLatLonToMapcode_def Let_def matchResult_def)

text \<open>
  C9. A failure of the encode check is not always reported: the encoder
  returns the pair (49.4V, NLD), the pair (49.4V, nld) is expected, no result
  matches, and with self checking enabled the check neither writes a message nor
  ends the process with status 2, because it reaches \<^verbatim>\<open>strcmp\<close> with the null
  pointer first.
\<close>

theorem encode_check_failure_not_reported:
  "selfCheckLatLonToMapcode
     (cd\<lparr>encodeLatLonToMapcodes_Deprecated :=
           (\<lambda>lat lon context extraDigits. [(''49.4V'', ''NLD'')])\<rparr>)
     lat lon ''nld'' ''49.4V'' extraDigits (p\<lparr>selfCheckEnabled := True\<rparr>)
   = (NullStrcmp, p\<lparr>selfCheckEnabled := True\<rparr>)"
  by (simp add: selfCheckLatLonToMapcode_def Let_def matchResult_def)



text \<open>
  The null pointer is reached from the command line: the program is named
  mapcode_debug, so self checking is enabled, and it is asked to decode 49.4V
  with the territory written as nld, while the encoder names the territory NLD.
\<close>

lemma mainDecode_reaches_null_strcmp:
  "fst (mainDecode exampleCodec ''mapcode_debug'' [''nld'', ''49.4V''] initialProc) = NullStrcmp"
  by (simp add: mainDecode_def exampleCodec_def initialProc_def Let_def say_def print_def
      andThen_def selfCheckLatLonToMapcode_def matchResult_def)

end
